theory Spec2Isabelle
  imports Main
begin

section \<open>RBAC engine (pkg/auth/rbac.go)\<close>

text \<open>
  Go strings are modelled as \<open>string\<close>, slices as lists (a nil slice is the empty list),
  and a Go map as a partial function. The registry maps hold pointers in the source; the
  model stores the pointed-to values, so every role owns its permission list.
\<close>

record Permission =
  ID :: string
  Name :: string
  Description :: string
  Resource :: string
  Action :: string

record Role =
  ID :: string
  Name :: string
  Description :: string
  Permissions :: "Permission list"

record RBAC =
  roles :: "string \<rightharpoonup> Role"
  permissions :: "string \<rightharpoonup> Permission"
  userRoles :: "string \<rightharpoonup> string list"

record Policy =
  Resource :: string
  Actions :: "string list"
  Roles :: "string list"
  Permissions :: "string list"

datatype rbac_error =
    PermissionIDEmpty
  | PermissionNameEmpty
  | PermissionNotFound
  | RoleIDEmpty
  | RoleNameEmpty
  | RoleNotFound



definition GetPermission :: "RBAC \<Rightarrow> string \<Rightarrow> rbac_error + Permission" where
  "GetPermission rbac permissionID =
     (case permissions rbac permissionID of
        None \<Rightarrow> Inl PermissionNotFound
      | Some permission \<Rightarrow> Inr permission)"






fun containsPermissionID :: "Permission list \<Rightarrow> string \<Rightarrow> bool" where
  "containsPermissionID [] permissionID = False"
| "containsPermissionID (p # rest) permissionID =
     (if Permission.ID p = permissionID then True else containsPermissionID rest permissionID)"

definition AddPermissionToRole :: "RBAC \<Rightarrow> string \<Rightarrow> string \<Rightarrow> rbac_error + RBAC" where
  "AddPermissionToRole rbac roleID permissionID =
     (case roles rbac roleID of
        None \<Rightarrow> Inl RoleNotFound
      | Some role \<Rightarrow>
          (case permissions rbac permissionID of
             None \<Rightarrow> Inl PermissionNotFound
           | Some permission \<Rightarrow>
               if containsPermissionID (Role.Permissions role) permissionID then Inr rbac
               else Inr (rbac\<lparr>roles := (roles rbac)
                      (roleID \<mapsto> role\<lparr>Role.Permissions := Role.Permissions role @ [permission]\<rparr>)\<rparr>)))"

text \<open>Reading a missing key of \<open>userRoles\<close> yields the nil slice.\<close>

definition GetUserRoles :: "RBAC \<Rightarrow> string \<Rightarrow> string list" where
  "GetUserRoles rbac userID = (case userRoles rbac userID of None \<Rightarrow> [] | Some rs \<Rightarrow> rs)"

fun containsRole :: "string list \<Rightarrow> string \<Rightarrow> bool" where
  "containsRole [] roleID = False"
| "containsRole (role # rest) roleID =
     (if role = roleID then True else containsRole rest roleID)"

definition AssignRoleToUser :: "RBAC \<Rightarrow> string \<Rightarrow> string \<Rightarrow> rbac_error + RBAC" where
  "AssignRoleToUser rbac userID roleID =
     (case roles rbac roleID of
        None \<Rightarrow> Inl RoleNotFound
      | Some _ \<Rightarrow>
          if containsRole (GetUserRoles rbac userID) roleID then Inr rbac
          else Inr (rbac\<lparr>userRoles := (userRoles rbac)
                 (userID \<mapsto> GetUserRoles rbac userID @ [roleID])\<rparr>))"

text \<open>
  \<open>deduplicatePermissions\<close> keeps \<open>seen\<close>, a \<open>map[string]bool\<close> used as a set of ids
  (a missing key reads as false, and only \<open>true\<close> is ever stored), and appends a permission
  to the result the first time its id is met.
\<close>

fun deduplicateLoop ::
  "Permission list \<Rightarrow> string set \<Rightarrow> Permission list \<Rightarrow> Permission list" where
  "deduplicateLoop [] seen result = result"
| "deduplicateLoop (permission # rest) seen result =
     (if Permission.ID permission \<notin> seen
      then deduplicateLoop rest (insert (Permission.ID permission) seen) (result @ [permission])
      else deduplicateLoop rest seen result)"

definition deduplicatePermissions :: "Permission list \<Rightarrow> Permission list" where
  "deduplicatePermissions ps = deduplicateLoop ps {} []"

fun collectPermissions :: "RBAC \<Rightarrow> string list \<Rightarrow> Permission list \<Rightarrow> Permission list" where
  "collectPermissions rbac [] acc = acc"
| "collectPermissions rbac (roleID # rest) acc =
     (case roles rbac roleID of
        Some role \<Rightarrow> collectPermissions rbac rest (acc @ Role.Permissions role)
      | None \<Rightarrow> collectPermissions rbac rest acc)"

definition GetUserPermissions :: "RBAC \<Rightarrow> string \<Rightarrow> Permission list" where
  "GetUserPermissions rbac userID =
     deduplicatePermissions (collectPermissions rbac (GetUserRoles rbac userID) [])"

definition HasPermission :: "RBAC \<Rightarrow> string \<Rightarrow> string \<Rightarrow> bool" where
  "HasPermission rbac userID permissionID =
     containsPermissionID (GetUserPermissions rbac userID) permissionID"

fun matchResource :: "Permission list \<Rightarrow> string \<Rightarrow> string \<Rightarrow> bool" where
  "matchResource [] resource action = False"
| "matchResource (permission # rest) resource action =
     (if Permission.Resource permission = resource \<and> Permission.Action permission = action
      then True
      else if Permission.Resource permission = ''*'' \<or> Permission.Action permission = ''*''
      then True
      else matchResource rest resource action)"

definition HasResourcePermission :: "RBAC \<Rightarrow> string \<Rightarrow> string \<Rightarrow> string \<Rightarrow> bool" where
  "HasResourcePermission rbac userID resource action =
     matchResource (GetUserPermissions rbac userID) resource action"

definition HasRole :: "RBAC \<Rightarrow> string \<Rightarrow> string \<Rightarrow> bool" where
  "HasRole rbac userID roleID = containsRole (GetUserRoles rbac userID) roleID"

fun HasAnyRole :: "RBAC \<Rightarrow> string \<Rightarrow> string list \<Rightarrow> bool" where
  "HasAnyRole rbac userID [] = False"
| "HasAnyRole rbac userID (roleID # rest) =
     (if HasRole rbac userID roleID then True else HasAnyRole rbac userID rest)"

fun hasEveryPermission :: "RBAC \<Rightarrow> string \<Rightarrow> string list \<Rightarrow> bool" where
  "hasEveryPermission rbac userID [] = True"
| "hasEveryPermission rbac userID (permissionID # rest) =
     (if \<not> HasPermission rbac userID permissionID then False
      else hasEveryPermission rbac userID rest)"

fun hasEveryAction :: "RBAC \<Rightarrow> string \<Rightarrow> string \<Rightarrow> string list \<Rightarrow> bool" where
  "hasEveryAction rbac userID resource [] = True"
| "hasEveryAction rbac userID resource (action # rest) =
     (if \<not> HasResourcePermission rbac userID resource action then False
      else hasEveryAction rbac userID resource rest)"

text \<open>
  \<open>EvaluatePolicy\<close>: three guarded checks in sequence, each returning false at its first
  failure; the role and permission checks are entered only for a non-empty list.
\<close>

definition EvaluatePolicy :: "RBAC \<Rightarrow> string \<Rightarrow> Policy \<Rightarrow> bool" where
  "EvaluatePolicy rbac userID policy =
     (if length (Policy.Roles policy) > 0 \<and> \<not> HasAnyRole rbac userID (Policy.Roles policy)
      then False
      else if length (Policy.Permissions policy) > 0
              \<and> \<not> hasEveryPermission rbac userID (Policy.Permissions policy)
      then False
      else hasEveryAction rbac userID (Policy.Resource policy) (Policy.Actions policy))"

section \<open>Rate limiter (pkg/middleware/ratelimit.go)\<close>

text \<open>
  A \<open>time.Time\<close> is an instant in nanoseconds, a \<open>time.Duration\<close> a signed 64-bit count of
  nanoseconds, and Go's \<open>int\<close> a signed 64-bit integer. All three are modelled as \<open>int\<close>;
  where the source computes on \<open>int\<close> or \<open>Duration\<close> values the two's-complement
  wrap-around is written out with \<open>wrap64\<close>. The clock reading \<open>time.Now()\<close> is an
  argument of each operation, and the mutexes are left out: every operation runs under
  its lock from beginning to end.
\<close>

type_synonym Time = int
type_synonym Duration = int

definition wrap64 :: "int \<Rightarrow> int" where
  "wrap64 x = (x + 2 ^ 63) mod 2 ^ 64 - 2 ^ 63"

definition maxDuration :: Duration where
  "maxDuration = 2 ^ 63 - 1"

definition minDuration :: Duration where
  "minDuration = - (2 ^ 63)"

definition Second :: Duration where
  "Second = 1000000000"

definition Hour :: Duration where
  "Hour = 3600 * Second"

text \<open>\<open>t.Sub(u)\<close> saturates at the largest and smallest duration.\<close>

definition Sub :: "Time \<Rightarrow> Time \<Rightarrow> Duration" where
  "Sub t u = (if t - u > maxDuration then maxDuration
              else if t - u < minDuration then minDuration
              else t - u)"

text \<open>
  \<open>int(elapsed.Seconds())\<close>: the duration in seconds converted to \<open>int\<close>, which drops the
  fraction (rounding towards zero). \<open>Seconds\<close> passes through a \<open>float64\<close>; the conversion is
  taken as exact here. Its magnitude never exceeds 9223372036, the number of whole seconds
  in the largest duration, which is the only fact about it that the bounds below rest on.
\<close>

definition wholeSeconds :: "Duration \<Rightarrow> int" where
  "wholeSeconds d = (if d \<ge> 0 then d div Second else - ((- d) div Second))"

record tokenBucket =
  tokens :: int
  capacity :: int
  rate :: int
  lastRefill :: Time

definition newTokenBucket :: "int \<Rightarrow> int \<Rightarrow> Time \<Rightarrow> tokenBucket" where
  "newTokenBucket cap rt now =
     \<lparr>tokens = cap, capacity = cap, rate = rt, lastRefill = now\<rparr>"

definition consume :: "Time \<Rightarrow> tokenBucket \<Rightarrow> bool \<times> tokenBucket" where
  "consume now tb =
     (let elapsed = Sub now (lastRefill tb);
          tokensToAdd = wrap64 (wholeSeconds elapsed * rate tb);
          tb' = (if tokensToAdd > 0
                 then (let added = wrap64 (tokens tb + tokensToAdd)
                       in tb\<lparr>tokens := (if added > capacity tb then capacity tb else added),
                             lastRefill := now\<rparr>)
                 else tb)
      in if tokens tb' > 0 then (True, tb'\<lparr>tokens := wrap64 (tokens tb' - 1)\<rparr>)
         else (False, tb'))"

text \<open>A sequence of \<open>consume\<close> calls at the given clock readings, with their results.\<close>

fun consumeAll :: "Time list \<Rightarrow> tokenBucket \<Rightarrow> bool list \<times> tokenBucket" where
  "consumeAll [] tb = ([], tb)"
| "consumeAll (now # later) tb =
     (case consume now tb of
        (ok, tb') \<Rightarrow> (case consumeAll later tb' of (oks, tb'') \<Rightarrow> (ok # oks, tb'')))"






section \<open>JWT managers (pkg/auth/manager.go and the \<open>JWTManager\<close> of package auth)\<close>

text \<open>
  Both managers delegate signing and parsing to the library \<open>golang-jwt/jwt/v5\<close>, which is
  not part of the repository. The model below states the library behaviour the managers
  rely on:
  \<^item> a compact token carries a signing method (the \<open>alg\<close> header), the claims and a
    signature; a string that is not of this shape is malformed;
  \<^item> signatures are symbolic: the HMAC of a payload under a key is the term
    \<open>HMACSig method key claims\<close>, so two signatures agree exactly when method, key and
    payload agree, and signing is deterministic;
  \<^item> \<open>ParseWithClaims\<close> parses, calls the key function, verifies the signature and then
    validates the registered claims: the token must not be expired (\<open>now < exp\<close>) and must
    already be valid (\<open>nbf \<le> now\<close>); an absent claim is not checked. Only then is the
    token marked \<open>Valid\<close>;
  \<^item> \<open>NewNumericDate\<close> truncates an instant to whole seconds.
\<close>

datatype SigningMethod = HS256 | HS384 | HS512 | RS256 | ES256 | NoneMethod

fun isHMAC :: "SigningMethod \<Rightarrow> bool" where
  "isHMAC HS256 = True"
| "isHMAC HS384 = True"
| "isHMAC HS512 = True"
| "isHMAC _ = False"

datatype 'c Signature = HMACSig SigningMethod string 'c | OtherSignature string

record 'c Token =
  Method :: SigningMethod
  Claims :: 'c
  Signature :: "'c Signature"

record 'c ParsedToken = "'c Token" +
  Valid :: bool

datatype 'c TokenString = Malformed string | Compact (compact: "'c Token")

datatype claim_error = ErrTokenExpired | ErrTokenNotValidYet

datatype jwt_error =
    ErrTokenMalformed
  | ErrTokenUnverifiable
  | ErrTokenSignatureInvalid
  | ErrTokenInvalidClaims "claim_error list"
  | ErrInvalidKeyType

record RegisteredClaims =
  Issuer :: string
  Subject :: string
  Audience :: "string list"
  ExpiresAt :: "Time option"
  NotBefore :: "Time option"
  IssuedAt :: "Time option"

definition NewNumericDate :: "Time \<Rightarrow> Time option" where
  "NewNumericDate t = Some (t - t mod Second)"

definition verifyExpiresAt :: "Time \<Rightarrow> 'a RegisteredClaims_scheme \<Rightarrow> claim_error list" where
  "verifyExpiresAt now claims =
     (case RegisteredClaims.ExpiresAt claims of
        None \<Rightarrow> []
      | Some exp \<Rightarrow> if now < exp then [] else [ErrTokenExpired])"

definition verifyNotBefore :: "Time \<Rightarrow> 'a RegisteredClaims_scheme \<Rightarrow> claim_error list" where
  "verifyNotBefore now claims =
     (case NotBefore claims of
        None \<Rightarrow> []
      | Some nbf \<Rightarrow> if \<not> now < nbf then [] else [ErrTokenNotValidYet])"

definition Validate :: "Time \<Rightarrow> 'a RegisteredClaims_scheme \<Rightarrow> claim_error list" where
  "Validate now claims = verifyExpiresAt now claims @ verifyNotBefore now claims"

definition Verify :: "SigningMethod \<Rightarrow> string \<Rightarrow> 'c Token \<Rightarrow> bool" where
  "Verify method key token \<longleftrightarrow>
     isHMAC method \<and> Signature token = HMACSig method key (Claims token)"

definition SignedString :: "SigningMethod \<Rightarrow> 'c \<Rightarrow> string \<Rightarrow> jwt_error + 'c TokenString" where
  "SignedString method claims key =
     (if isHMAC method
      then Inr (Compact \<lparr>Method = method, Claims = claims,
                         Signature = HMACSig method key claims\<rparr>)
      else Inl ErrInvalidKeyType)"

definition ParseWithClaims ::
  "('a RegisteredClaims_scheme Token \<Rightarrow> string + string) \<Rightarrow> Time
     \<Rightarrow> 'a RegisteredClaims_scheme TokenString
     \<Rightarrow> jwt_error + 'a RegisteredClaims_scheme ParsedToken" where
  "ParseWithClaims keyFunc now tokenString =
     (case tokenString of
        Malformed _ \<Rightarrow> Inl ErrTokenMalformed
      | Compact token \<Rightarrow>
          (case keyFunc token of
             Inl _ \<Rightarrow> Inl ErrTokenUnverifiable
           | Inr key \<Rightarrow>
               if \<not> Verify (Method token) key token then Inl ErrTokenSignatureInvalid
               else if Validate now (Claims token) \<noteq> []
               then Inl (ErrTokenInvalidClaims (Validate now (Claims token)))
               else Inr \<lparr>Method = Method token, Claims = Claims token,
                          Signature = Signature token, Valid = True\<rparr>))"

subsection \<open>\<open>Manager\<close> (pkg/auth/manager.go)\<close>

record JWTConfig =
  Secret :: string
  ExpireHours :: int
  RefreshHours :: int
  Issuer :: string

record Claims = RegisteredClaims +
  UserID :: int
  Username :: string
  Email :: string
  Role :: string

record TokenPair =
  AccessToken :: "Claims TokenString"
  RefreshToken :: "Claims TokenString"
  ExpiresAt :: int
  TokenType :: string

text \<open>The claims, user and token pair of \<open>JWTManager\<close>.\<close>

record JWTClaims = RegisteredClaims +
  UserID :: string
  Username :: string
  Email :: string
  Roles :: "string list"

record User =
  ID :: string
  Username :: string
  Email :: string
  Password :: string
  Roles :: "string list"
  IsActive :: bool

record JWTTokenPair =
  AccessToken :: "JWTClaims TokenString"
  RefreshToken :: "JWTClaims TokenString"
  ExpiresIn :: int
  TokenType :: string

record Manager =
  config :: JWTConfig
  signingMethod :: SigningMethod

datatype error =
    SigningFailed jwt_error
  | FailedToGenerateAccessToken error
  | FailedToGenerateRefreshToken error
  | FailedToParseToken jwt_error
  | InvalidToken
  | InvalidTokenIssuer
  | InvalidRefreshToken error
  | NotARefreshToken
  | JWTManagerParseError jwt_error
  | RefreshTokenExpired

text \<open>A call either returns a value or panics (a Go run-time error that unwinds the call).\<close>

datatype 'a outcome = Panic | Return (returned: 'a)

definition New :: "JWTConfig \<Rightarrow> Manager" where
  "New cfg = \<lparr>config = cfg, signingMethod = HS256\<rparr>"

text \<open>\<open>fmt.Sprintf("%d", n)\<close>: the decimal digits, with a minus sign for a negative number.\<close>

fun decimal :: "nat \<Rightarrow> string" where
  "decimal n = (if n < 10 then [''0123456789'' ! n]
                else decimal (n div 10) @ [''0123456789'' ! (n mod 10)])"

definition formatInt :: "int \<Rightarrow> string" where
  "formatInt i = (if i < 0 then CHR ''-'' # decimal (nat (- i)) else decimal (nat i))"

text \<open>\<open>time.Duration(hours) * time.Hour\<close>, a 64-bit product.\<close>

definition hoursDuration :: "int \<Rightarrow> Duration" where
  "hoursDuration hours = wrap64 (hours * Hour)"

definition keyFunc :: "JWTConfig \<Rightarrow> 'c Token \<Rightarrow> string + string" where
  "keyFunc cfg token =
     (if \<not> isHMAC (Method token) then Inl ''unexpected signing method''
      else Inr (Secret cfg))"

definition GenerateToken ::
  "Manager \<Rightarrow> Time \<Rightarrow> int \<Rightarrow> string \<Rightarrow> string \<Rightarrow> string \<Rightarrow> error + Claims TokenString" where
  "GenerateToken m now userID username email role =
     (let expiresAt = now + hoursDuration (ExpireHours (config m));
          claims = \<lparr>RegisteredClaims.Issuer = JWTConfig.Issuer (config m),
                    Subject = formatInt userID,
                    Audience = [JWTConfig.Issuer (config m)],
                    RegisteredClaims.ExpiresAt = NewNumericDate expiresAt,
                    NotBefore = NewNumericDate now,
                    IssuedAt = NewNumericDate now,
                    Claims.UserID = userID, Claims.Username = username,
                    Claims.Email = email, Claims.Role = role\<rparr>
      in case SignedString (signingMethod m) claims (Secret (config m)) of
           Inl e \<Rightarrow> Inl (SigningFailed e)
         | Inr token \<Rightarrow> Inr token)"

definition GenerateRefreshToken ::
  "Manager \<Rightarrow> Time \<Rightarrow> int \<Rightarrow> string \<Rightarrow> error + Claims TokenString" where
  "GenerateRefreshToken m now userID username =
     (let expiresAt = now + hoursDuration (RefreshHours (config m));
          claims = \<lparr>RegisteredClaims.Issuer = JWTConfig.Issuer (config m),
                    Subject = ''refresh:'' @ formatInt userID,
                    Audience = [JWTConfig.Issuer (config m)],
                    RegisteredClaims.ExpiresAt = NewNumericDate expiresAt,
                    NotBefore = NewNumericDate now,
                    IssuedAt = NewNumericDate now,
                    Claims.UserID = userID, Claims.Username = username,
                    Claims.Email = [], Claims.Role = []\<rparr>
      in case SignedString (signingMethod m) claims (Secret (config m)) of
           Inl e \<Rightarrow> Inl (SigningFailed e)
         | Inr token \<Rightarrow> Inr token)"

text \<open>
  \<open>GenerateTokenPair\<close> reads the clock three times: in \<open>GenerateToken\<close>, in
  \<open>GenerateRefreshToken\<close> and for the \<open>ExpiresAt\<close> field of the pair.
\<close>

definition GenerateTokenPair ::
  "Manager \<Rightarrow> Time \<Rightarrow> Time \<Rightarrow> Time \<Rightarrow> int \<Rightarrow> string \<Rightarrow> string \<Rightarrow> string \<Rightarrow> error + TokenPair" where
  "GenerateTokenPair m now1 now2 now3 userID username email role =
     (case GenerateToken m now1 userID username email role of
        Inl err \<Rightarrow> Inl (FailedToGenerateAccessToken err)
      | Inr accessToken \<Rightarrow>
          (case GenerateRefreshToken m now2 userID username of
             Inl err \<Rightarrow> Inl (FailedToGenerateRefreshToken err)
           | Inr refreshToken \<Rightarrow>
               Inr \<lparr>TokenPair.AccessToken = accessToken,
                    TokenPair.RefreshToken = refreshToken,
                    TokenPair.ExpiresAt = (now3 + hoursDuration (ExpireHours (config m))) div Second,
                    TokenType = ''Bearer''\<rparr>))"

text \<open>
  In \<open>ValidateToken\<close> the type assertion \<open>token.Claims.(*Claims)\<close> always succeeds, since the
  claims object handed to the parser is a \<open>*Claims\<close>; its error branch has no counterpart here.
\<close>

definition ValidateToken :: "Manager \<Rightarrow> Time \<Rightarrow> Claims TokenString \<Rightarrow> error + Claims" where
  "ValidateToken m now tokenString =
     (case ParseWithClaims (keyFunc (config m)) now tokenString of
        Inl err \<Rightarrow> Inl (FailedToParseToken err)
      | Inr token \<Rightarrow>
          if \<not> Valid token then Inl InvalidToken
          else if RegisteredClaims.Issuer (Claims token) \<noteq> JWTConfig.Issuer (config m)
          then Inl InvalidTokenIssuer
          else Inr (Claims token))"

text \<open>
  \<open>RefreshToken\<close> tests \<open>claims.Subject[:8] != "refresh:"\<close>; slicing a string beyond its
  length (counted in bytes) is a run-time panic. Its clock readings are \<open>now\<close> for the
  validation and \<open>now1\<close>, \<open>now2\<close>, \<open>now3\<close> for the new pair.
\<close>

definition sliceTo :: "string \<Rightarrow> nat \<Rightarrow> string outcome" where
  "sliceTo s n = (if n > length s then Panic else Return (take n s))"

definition RefreshToken ::
  "Manager \<Rightarrow> Time \<Rightarrow> Time \<Rightarrow> Time \<Rightarrow> Time \<Rightarrow> Claims TokenString \<Rightarrow> (error + TokenPair) outcome" where
  "RefreshToken m now now1 now2 now3 refreshTokenString =
     (case ValidateToken m now refreshTokenString of
        Inl err \<Rightarrow> Return (Inl (InvalidRefreshToken err))
      | Inr claims \<Rightarrow>
          if Subject claims = [] then Return (Inl NotARefreshToken)
          else (case sliceTo (Subject claims) 8 of
                  Panic \<Rightarrow> Panic
                | Return prefix \<Rightarrow>
                    if prefix \<noteq> ''refresh:'' then Return (Inl NotARefreshToken)
                    else Return (GenerateTokenPair m now1 now2 now3 (Claims.UserID claims)
                                   (Claims.Username claims) (Claims.Email claims)
                                   (Claims.Role claims))))"

subsection \<open>\<open>JWTManager\<close>, the second manager of package auth\<close>

text \<open>
  A \<open>JWTManager\<close> holds nothing but its configuration, so its methods take the
  configuration. It always signs with HS256 and sets no audience.
\<close>

definition JWTManager_GenerateToken ::
  "JWTConfig \<Rightarrow> Time \<Rightarrow> User \<Rightarrow> error + JWTClaims TokenString" where
  "JWTManager_GenerateToken cfg now user =
     (let expiresAt = now + hoursDuration (ExpireHours cfg);
          claims = \<lparr>RegisteredClaims.Issuer = JWTConfig.Issuer cfg,
                    Subject = User.ID user,
                    Audience = [],
                    RegisteredClaims.ExpiresAt = NewNumericDate expiresAt,
                    NotBefore = NewNumericDate now,
                    IssuedAt = NewNumericDate now,
                    JWTClaims.UserID = User.ID user,
                    JWTClaims.Username = User.Username user,
                    JWTClaims.Email = User.Email user,
                    JWTClaims.Roles = User.Roles user\<rparr>
      in case SignedString HS256 claims (Secret cfg) of
           Inl e \<Rightarrow> Inl (SigningFailed e)
         | Inr token \<Rightarrow> Inr token)"

definition JWTManager_GenerateRefreshToken ::
  "JWTConfig \<Rightarrow> Time \<Rightarrow> User \<Rightarrow> error + JWTClaims TokenString" where
  "JWTManager_GenerateRefreshToken cfg now user =
     (let expiresAt = now + hoursDuration (RefreshHours cfg);
          claims = \<lparr>RegisteredClaims.Issuer = JWTConfig.Issuer cfg,
                    Subject = User.ID user,
                    Audience = [],
                    RegisteredClaims.ExpiresAt = NewNumericDate expiresAt,
                    NotBefore = NewNumericDate now,
                    IssuedAt = NewNumericDate now,
                    JWTClaims.UserID = User.ID user,
                    JWTClaims.Username = User.Username user,
                    JWTClaims.Email = User.Email user,
                    JWTClaims.Roles = User.Roles user\<rparr>
      in case SignedString HS256 claims (Secret cfg) of
           Inl e \<Rightarrow> Inl (SigningFailed e)
         | Inr token \<Rightarrow> Inr token)"

definition JWTManager_GenerateTokenPair ::
  "JWTConfig \<Rightarrow> Time \<Rightarrow> Time \<Rightarrow> User \<Rightarrow> error + JWTTokenPair" where
  "JWTManager_GenerateTokenPair cfg now1 now2 user =
     (case JWTManager_GenerateToken cfg now1 user of
        Inl err \<Rightarrow> Inl (FailedToGenerateAccessToken err)
      | Inr accessToken \<Rightarrow>
          (case JWTManager_GenerateRefreshToken cfg now2 user of
             Inl err \<Rightarrow> Inl (FailedToGenerateRefreshToken err)
           | Inr refreshToken \<Rightarrow>
               Inr \<lparr>JWTTokenPair.AccessToken = accessToken,
                    JWTTokenPair.RefreshToken = refreshToken,
                    JWTTokenPair.ExpiresIn = wrap64 (ExpireHours cfg * 3600),
                    JWTTokenPair.TokenType = ''Bearer''\<rparr>))"

definition JWTManager_ValidateToken ::
  "JWTConfig \<Rightarrow> Time \<Rightarrow> JWTClaims TokenString \<Rightarrow> error + JWTClaims" where
  "JWTManager_ValidateToken cfg now tokenString =
     (case ParseWithClaims (keyFunc cfg) now tokenString of
        Inl err \<Rightarrow> Inl (JWTManagerParseError err)
      | Inr token \<Rightarrow>
          if Valid token then Inr (Claims token) else Inl InvalidToken)"

text \<open>
  \<open>JWTManager.RefreshToken\<close> reads \<open>claims.ExpiresAt.Time\<close>; \<open>ExpiresAt\<close> is a pointer,
  nil when the token has no \<open>exp\<close> claim, and reading through it then panics.
\<close>

definition JWTManager_RefreshToken ::
  "JWTConfig \<Rightarrow> Time \<Rightarrow> Time \<Rightarrow> Time \<Rightarrow> Time \<Rightarrow> JWTClaims TokenString
     \<Rightarrow> (error + JWTTokenPair) outcome" where
  "JWTManager_RefreshToken cfg now0 now now1 now2 refreshTokenString =
     (case JWTManager_ValidateToken cfg now0 refreshTokenString of
        Inl err \<Rightarrow> Return (Inl (InvalidRefreshToken err))
      | Inr claims \<Rightarrow>
          (case RegisteredClaims.ExpiresAt claims of
             None \<Rightarrow> Panic
           | Some exp \<Rightarrow>
               if exp < now then Return (Inl RefreshTokenExpired)
               else Return (JWTManager_GenerateTokenPair cfg now1 now2
                      \<lparr>User.ID = JWTClaims.UserID claims,
                       User.Username = JWTClaims.Username claims,
                       User.Email = JWTClaims.Email claims,
                       User.Password = [],
                       User.Roles = JWTClaims.Roles claims,
                       User.IsActive = False\<rparr>)))"

section \<open>Auxiliary definitions\<close>

text \<open>The invariant of a token bucket used in the proof of its bounds.\<close>

definition bucketInv :: "tokenBucket \<Rightarrow> bool" where
  "bucketInv tb \<longleftrightarrow> 0 \<le> tokens tb \<and> tokens tb \<le> capacity tb
      \<and> capacity tb + 9223372036 * \<bar>rate tb\<bar> < 2 ^ 63"

subsection \<open>Sample data\<close>

text \<open>
  Concrete values for the instances below: the default permissions and roles of
  \<open>CreateDefaultRolesAndPermissions\<close> (with ASCII names), a role list with a repeated
  permission, and the configuration of the package's tests.
\<close>

definition userRead :: Permission where
  "userRead = \<lparr>Permission.ID = ''user.read'', Name = ''read user'', Description = [],
                Resource = ''user'', Action = ''read''\<rparr>"

definition userWrite :: Permission where
  "userWrite = \<lparr>Permission.ID = ''user.write'', Name = ''write user'', Description = [],
                 Resource = ''user'', Action = ''write''\<rparr>"

definition adminAll :: Permission where
  "adminAll = \<lparr>Permission.ID = ''admin.all'', Name = ''administrator'', Description = [],
                Resource = ''*'', Action = ''*''\<rparr>"

definition readerRole :: Role where
  "readerRole = \<lparr>Role.ID = ''user'', Name = ''plain user'', Description = [],
                  Permissions = [userRead]\<rparr>"

definition editorRole :: Role where
  "editorRole = \<lparr>Role.ID = ''editor'', Name = ''editor'', Description = [],
                  Permissions = [userRead, userWrite]\<rparr>"

definition adminRole :: Role where
  "adminRole = \<lparr>Role.ID = ''admin'', Name = ''administrator'', Description = [],
                 Permissions = [adminAll]\<rparr>"

definition sampleRBAC :: RBAC where
  "sampleRBAC = \<lparr>
     roles = [''user'' \<mapsto> readerRole, ''editor'' \<mapsto> editorRole, ''admin'' \<mapsto> adminRole],
     permissions = [''user.read'' \<mapsto> userRead, ''user.write'' \<mapsto> userWrite,
                    ''admin.all'' \<mapsto> adminAll],
     userRoles = [''alice'' \<mapsto> [''user'', ''editor''], ''bob'' \<mapsto> [''admin'']]\<rparr>"

definition writePolicy :: Policy where
  "writePolicy = \<lparr>Policy.Resource = ''user'', Actions = [''write''], Roles = [''editor'', ''admin''],
                   Permissions = [''user.write'']\<rparr>"




definition testConfig :: JWTConfig where
  "testConfig = \<lparr>Secret = ''test-secret-key'', ExpireHours = 1, RefreshHours = 24,
                  Issuer = ''test-app''\<rparr>"


definition testUser :: User where
  "testUser = \<lparr>User.ID = ''123'', User.Username = ''testuser'', User.Email = ''test@example.com'',
                User.Password = [], User.Roles = [''user''], User.IsActive = True\<rparr>"




section \<open>Properties of the RBAC engine\<close>

subsection \<open>The search loops\<close>

lemma distinct_count_once: "distinct xs \<Longrightarrow> x \<in> set xs \<Longrightarrow> count_list xs x = 1"
  by (induction xs) auto

lemma containsRole_iff: "containsRole rs r \<longleftrightarrow> r \<in> set rs"
  by (induction rs) auto

lemma containsPermissionID_iff:
  "containsPermissionID ps pid \<longleftrightarrow> pid \<in> Permission.ID ` set ps"
  by (induction ps) auto

lemma matchResource_iff:
  "matchResource ps res act \<longleftrightarrow>
     (\<exists>p \<in> set ps. (Permission.Resource p = res \<and> Permission.Action p = act)
        \<or> Permission.Resource p = ''*'' \<or> Permission.Action p = ''*'')"
  by (induction ps) auto

lemma HasAnyRole_iff:
  "HasAnyRole rbac u rs \<longleftrightarrow> (\<exists>r \<in> set rs. HasRole rbac u r)"
  by (induction rs) auto

lemma hasEveryPermission_iff:
  "hasEveryPermission rbac u ps \<longleftrightarrow> (\<forall>p \<in> set ps. HasPermission rbac u p)"
  by (induction ps) auto

lemma hasEveryAction_iff:
  "hasEveryAction rbac u res as \<longleftrightarrow> (\<forall>a \<in> set as. HasResourcePermission rbac u res a)"
  by (induction as) auto

subsection \<open>Deduplication and the permissions of a user\<close>

lemma deduplicateLoop_ids:
  "Permission.ID ` set (deduplicateLoop ps seen res) =
     Permission.ID ` set res \<union> (Permission.ID ` set ps - seen)"
  by (induction ps seen res rule: deduplicateLoop.induct) auto

lemma deduplicateLoop_subset:
  "set (deduplicateLoop ps seen res) \<subseteq> set res \<union> set ps"
  by (induction ps seen res rule: deduplicateLoop.induct) auto

lemma deduplicateLoop_distinct:
  "distinct (map Permission.ID res) \<Longrightarrow> Permission.ID ` set res \<subseteq> seen \<Longrightarrow>
   distinct (map Permission.ID (deduplicateLoop ps seen res))"
  by (induction ps seen res rule: deduplicateLoop.induct) auto

lemma set_collectPermissions:
  "set (collectPermissions rbac rs []) =
     {p. \<exists>roleID \<in> set rs. \<exists>role. roles rbac roleID = Some role \<and> p \<in> set (Role.Permissions role)}"
proof -
  have "set (collectPermissions rbac rs acc) = set acc \<union>
     {p. \<exists>roleID \<in> set rs. \<exists>role. roles rbac roleID = Some role \<and> p \<in> set (Role.Permissions role)}"
    for acc
    by (induction rs arbitrary: acc) (auto split: option.splits)
  then show ?thesis by simp
qed

lemma sample_GetUserRoles_alice: "GetUserRoles sampleRBAC ''alice'' = [''user'', ''editor'']"
  by (simp add: GetUserRoles_def sampleRBAC_def)

lemma sample_GetUserPermissions_alice:
  "GetUserPermissions sampleRBAC ''alice'' = [userRead, userWrite]"
  by (simp add: GetUserPermissions_def deduplicatePermissions_def sample_GetUserRoles_alice)
     (simp add: sampleRBAC_def readerRole_def editorRole_def userRead_def userWrite_def)

text \<open>
  Claim C8. For every user id, \<open>GetUserPermissions\<close> returns exactly the union,
  deduplicated by permission id, of the permission lists of the roles assigned to the user:
  the id of every permission held by one of the user's (registered) roles occurs exactly
  once among the ids of the result, and every permission of the result comes from the list
  of one of the user's roles.
\<close>

theorem GetUserPermissions_union:
  "(\<forall>roleID \<in> set (GetUserRoles rbac userID). \<forall>role. roles rbac roleID = Some role \<longrightarrow>
      (\<forall>p \<in> set (Role.Permissions role).
         count_list (map Permission.ID (GetUserPermissions rbac userID)) (Permission.ID p) = 1))
   \<and> (\<forall>q \<in> set (GetUserPermissions rbac userID).
        \<exists>roleID \<in> set (GetUserRoles rbac userID). \<exists>role.
          roles rbac roleID = Some role \<and> q \<in> set (Role.Permissions role))"
proof -
  let ?all = "collectPermissions rbac (GetUserRoles rbac userID) []"
  let ?res = "GetUserPermissions rbac userID"
  have ids: "Permission.ID ` set ?res = Permission.ID ` set ?all"
    by (simp add: GetUserPermissions_def deduplicatePermissions_def deduplicateLoop_ids)
  have dist: "distinct (map Permission.ID ?res)"
    by (simp add: GetUserPermissions_def deduplicatePermissions_def deduplicateLoop_distinct)
  have sub: "set ?res \<subseteq> set ?all"
    using deduplicateLoop_subset [of ?all "{}" "[]"]
    by (simp add: GetUserPermissions_def deduplicatePermissions_def)
  have once: "count_list (map Permission.ID ?res) (Permission.ID p) = 1"
    if "p \<in> set ?all" for p
  proof -
    from that ids have "Permission.ID p \<in> set (map Permission.ID ?res)" by auto
    with dist show ?thesis by (rule distinct_count_once)
  qed
  show ?thesis
  proof (intro conjI ballI allI impI)
    fix roleID role p
    assume "roleID \<in> set (GetUserRoles rbac userID)" "roles rbac roleID = Some role"
      "p \<in> set (Role.Permissions role)"
    then have "p \<in> set ?all" by (auto simp: set_collectPermissions)
    then show "count_list (map Permission.ID ?res) (Permission.ID p) = 1" by (rule once)
  next
    fix q assume "q \<in> set ?res"
    with sub have "q \<in> set ?all" by auto
    then show "\<exists>roleID \<in> set (GetUserRoles rbac userID). \<exists>role.
          roles rbac roleID = Some role \<and> q \<in> set (Role.Permissions role)"
      by (auto simp: set_collectPermissions)
  qed
qed

theorem GetUserPermissions_union_witness:
  "''editor'' \<in> set (GetUserRoles sampleRBAC ''alice'')
   \<and> roles sampleRBAC ''editor'' = Some editorRole
   \<and> userRead \<in> set (Role.Permissions editorRole)
   \<and> userWrite \<in> set (GetUserPermissions sampleRBAC ''alice'')
   \<and> count_list (map Permission.ID (GetUserPermissions sampleRBAC ''alice''))
        (Permission.ID userRead) = 1"
proof -
  have a: "''editor'' \<in> set (GetUserRoles sampleRBAC ''alice'')"
    by (simp add: sample_GetUserRoles_alice)
  have b: "roles sampleRBAC ''editor'' = Some editorRole"
    by (simp add: sampleRBAC_def)
  have c: "userRead \<in> set (Role.Permissions editorRole)"
    by (simp add: editorRole_def)
  have d: "userWrite \<in> set (GetUserPermissions sampleRBAC ''alice'')"
    by (simp add: sample_GetUserPermissions_alice)
  from GetUserPermissions_union [of sampleRBAC "''alice''"] a b c d show ?thesis by blast
qed



text \<open>
  \<open>GetUserPermissions\<close> keeps, for every permission id, the first copy met in the user's
  role lists. When the copies of an id agree across those lists, the permissions it returns
  are exactly the entries of the assigned roles' lists, and \<open>HasResourcePermission\<close> can be
  read off the roles directly.
\<close>

lemma GetUserPermissions_set_consistent:
  assumes "\<forall>p \<in> set (collectPermissions rbac (GetUserRoles rbac userID) []).
           \<forall>q \<in> set (collectPermissions rbac (GetUserRoles rbac userID) []).
             Permission.ID p = Permission.ID q \<longrightarrow> p = q"
  shows "set (GetUserPermissions rbac userID)
           = set (collectPermissions rbac (GetUserRoles rbac userID) [])"
proof -
  let ?all = "collectPermissions rbac (GetUserRoles rbac userID) []"
  let ?res = "GetUserPermissions rbac userID"
  have ids: "Permission.ID ` set ?res = Permission.ID ` set ?all"
    by (simp add: GetUserPermissions_def deduplicatePermissions_def deduplicateLoop_ids)
  have sub: "set ?res \<subseteq> set ?all"
    using deduplicateLoop_subset [of ?all "{}" "[]"]
    by (simp add: GetUserPermissions_def deduplicatePermissions_def)
  have "p \<in> set ?res" if "p \<in> set ?all" for p
  proof -
    from that have "Permission.ID p \<in> Permission.ID ` set ?all" by (rule imageI)
    with ids have "Permission.ID p \<in> Permission.ID ` set ?res" by simp
    then obtain q where q: "q \<in> set ?res" "Permission.ID q = Permission.ID p" by auto
    with sub have "q \<in> set ?all" by auto
    with assms that q(2) have "q = p" by metis
    with q(1) show ?thesis by simp
  qed
  with sub show ?thesis by auto
qed

lemma HasResourcePermission_via_roles:
  assumes "\<forall>p \<in> set (collectPermissions rbac (GetUserRoles rbac userID) []).
           \<forall>q \<in> set (collectPermissions rbac (GetUserRoles rbac userID) []).
             Permission.ID p = Permission.ID q \<longrightarrow> p = q"
  shows "HasResourcePermission rbac userID resource action \<longleftrightarrow>
     (\<exists>roleID \<in> set (GetUserRoles rbac userID). \<exists>role. roles rbac roleID = Some role \<and>
        (\<exists>p \<in> set (Role.Permissions role).
           (Permission.Resource p = resource \<and> Permission.Action p = action)
           \<or> Permission.Resource p = ''*'' \<or> Permission.Action p = ''*''))"
  unfolding HasResourcePermission_def matchResource_iff
    GetUserPermissions_set_consistent [OF assms] set_collectPermissions
  by blast

text \<open>
  Claim C3. For every user id and policy, \<open>EvaluatePolicy\<close> returns true if and only if
  each of the three checks passes for its non-empty dimension: if the policy's role list is
  non-empty the user has at least one listed role; if its permission list is non-empty the
  user has every listed permission id; and for every listed action the user has the
  resource permission for the policy's resource and that action. An empty list is skipped.
\<close>

theorem EvaluatePolicy_iff:
  "EvaluatePolicy rbac userID policy \<longleftrightarrow>
     (Policy.Roles policy \<noteq> [] \<longrightarrow>
        (\<exists>roleID \<in> set (Policy.Roles policy). roleID \<in> set (GetUserRoles rbac userID)))
     \<and> (Policy.Permissions policy \<noteq> [] \<longrightarrow>
        (\<forall>permissionID \<in> set (Policy.Permissions policy).
           permissionID \<in> Permission.ID ` set (GetUserPermissions rbac userID)))
     \<and> (\<forall>action \<in> set (Policy.Actions policy).
           HasResourcePermission rbac userID (Policy.Resource policy) action)"
  by (auto simp: EvaluatePolicy_def HasAnyRole_iff hasEveryPermission_iff hasEveryAction_iff
      HasRole_def HasPermission_def containsRole_iff containsPermissionID_iff)

theorem EvaluatePolicy_iff_witness:
  "Policy.Roles writePolicy \<noteq> [] \<and> Policy.Permissions writePolicy \<noteq> []
   \<and> EvaluatePolicy sampleRBAC ''alice'' writePolicy
   \<and> \<not> EvaluatePolicy sampleRBAC ''carol'' writePolicy"
proof -
  have a: "HasResourcePermission sampleRBAC ''alice'' ''user'' ''write''"
    by (simp add: HasResourcePermission_def sample_GetUserPermissions_alice userRead_def
        userWrite_def)
  have b: "EvaluatePolicy sampleRBAC ''alice'' writePolicy"
    using a EvaluatePolicy_iff [of sampleRBAC "''alice''" writePolicy]
    by (simp add: writePolicy_def sample_GetUserRoles_alice sample_GetUserPermissions_alice
        userRead_def userWrite_def)
  have c: "GetUserRoles sampleRBAC ''carol'' = []"
    by (simp add: GetUserRoles_def sampleRBAC_def)
  have d: "\<not> EvaluatePolicy sampleRBAC ''carol'' writePolicy"
    using EvaluatePolicy_iff [of sampleRBAC "''carol''" writePolicy]
    by (simp add: writePolicy_def c)
  from b d show ?thesis by (simp add: writePolicy_def)
qed

subsection \<open>Removing a permission\<close>









text \<open>
  \<open>AddPermissionToRole\<close> never makes a role's list repeat an id (provided the registry
  files each permission under its own id); only a role handed to \<open>AddRole\<close> with a
  repeating list can hold an id twice.
\<close>

lemma AddPermissionToRole_distinct:
  assumes "AddPermissionToRole rbac roleID pid = Inr rbac'"
    and "\<forall>p. permissions rbac pid = Some p \<longrightarrow> Permission.ID p = pid"
    and "roles rbac' r = Some role'"
    and "\<forall>role. roles rbac r = Some role \<longrightarrow> distinct (map Permission.ID (Role.Permissions role))"
  shows "distinct (map Permission.ID (Role.Permissions role'))"
  using assms
  by (auto simp: AddPermissionToRole_def containsPermissionID_iff
      split: option.splits if_splits)




section \<open>Properties of the rate limiter\<close>

subsection \<open>Token bucket\<close>

lemma wrap64_id: "- (2 ^ 63) \<le> x \<Longrightarrow> x < 2 ^ 63 \<Longrightarrow> wrap64 x = x"
  by (simp add: wrap64_def)

lemma Sub_bounds: "- (2 ^ 63) \<le> Sub t u \<and> Sub t u < 2 ^ 63"
  by (simp add: Sub_def maxDuration_def minDuration_def)

lemma wholeSeconds_bound:
  assumes "- (2 ^ 63) \<le> d" "d < 2 ^ 63"
  shows "\<bar>wholeSeconds d\<bar> \<le> 9223372036"
proof (cases "d \<ge> 0")
  case True
  then have "wholeSeconds d = d div 1000000000" by (simp add: wholeSeconds_def Second_def)
  moreover have "0 \<le> d div 1000000000" using True by simp
  moreover have "d div 1000000000 \<le> 9223372036" using assms(2) by simp
  ultimately show ?thesis by simp
next
  case False
  then have "wholeSeconds d = - ((- d) div 1000000000)" by (simp add: wholeSeconds_def Second_def)
  moreover have "0 \<le> (- d) div 1000000000" using False by simp
  moreover have "(- d) div 1000000000 \<le> 9223372036" using assms(1) by simp
  ultimately show ?thesis by simp
qed

lemma consume_inv:
  assumes "bucketInv tb"
  shows "bucketInv (snd (consume now tb))
         \<and> capacity (snd (consume now tb)) = capacity tb
         \<and> rate (snd (consume now tb)) = rate tb"
proof -
  let ?secs = "wholeSeconds (Sub now (lastRefill tb))"
  let ?add = "?secs * rate tb"
  from assms have tk: "0 \<le> tokens tb" "tokens tb \<le> capacity tb"
    and room: "capacity tb + 9223372036 * \<bar>rate tb\<bar> < 2 ^ 63"
    by (simp_all add: bucketInv_def)
  have "\<bar>?secs\<bar> \<le> 9223372036"
    using Sub_bounds [of now "lastRefill tb"] by (intro wholeSeconds_bound) simp_all
  then have "\<bar>?add\<bar> \<le> 9223372036 * \<bar>rate tb\<bar>"
    by (simp add: abs_mult mult_right_mono)
  with room tk have addb: "\<bar>?add\<bar> < 2 ^ 63 - capacity tb" by linarith
  with tk have w1: "wrap64 ?add = ?add" by (intro wrap64_id) linarith+
  have w2: "wrap64 (tokens tb + ?add) = tokens tb + ?add" if "?add > 0"
    using that addb tk by (intro wrap64_id) linarith+
  have w3: "wrap64 (x - 1) = x - 1" if "0 < x" "x \<le> capacity tb" for x
    using that room by (intro wrap64_id) linarith+
  show ?thesis
  proof (cases "?add > 0")
    case True
    show ?thesis
      using True tk room w1 w2 [OF True] w3
      by (auto simp: consume_def Let_def bucketInv_def)
  next
    case False
    show ?thesis
      using False tk room w1 w3
      by (auto simp: consume_def Let_def bucketInv_def)
  qed
qed

lemma consumeAll_inv:
  "bucketInv tb \<Longrightarrow> bucketInv (snd (consumeAll calls tb))
     \<and> capacity (snd (consumeAll calls tb)) = capacity tb"
proof (induction calls arbitrary: tb)
  case Nil
  then show ?case by simp
next
  case (Cons now later)
  obtain ok tb' where c: "consume now tb = (ok, tb')" by (cases "consume now tb")
  with consume_inv [OF Cons.prems, of now] have "bucketInv tb'" "capacity tb' = capacity tb"
    by simp_all
  with Cons.IH [of tb'] c show ?case by (auto split: prod.splits)
qed

text \<open>
  Claim C9, as amended. For every token bucket created by \<open>newTokenBucket\<close> with a
  capacity that is not negative and with \<open>capacity + 9223372036 * |rate|\<close> below \<open>2^63\<close>
  (so that the refill cannot overflow the 64-bit \<open>int\<close>; 9223372036 is the largest number
  of whole seconds a \<open>Duration\<close> holds), and for every sequence of \<open>consume\<close> calls at
  arbitrary clock readings, the token count afterwards lies between 0 and the capacity.
  (The claim as stated, for every bucket, fails for a negative capacity and when the refill
  overflows, see the counterexample.)
\<close>

theorem tokenBucket_bounds:
  assumes "0 \<le> cap" and "cap + 9223372036 * \<bar>rt\<bar> < 2 ^ 63"
  shows "0 \<le> tokens (snd (consumeAll calls (newTokenBucket cap rt t0)))
         \<and> tokens (snd (consumeAll calls (newTokenBucket cap rt t0))) \<le> cap"
proof -
  have "bucketInv (newTokenBucket cap rt t0)"
    using assms by (simp add: bucketInv_def newTokenBucket_def)
  from consumeAll_inv [OF this, of calls] show ?thesis
    by (simp add: bucketInv_def newTokenBucket_def)
qed

theorem tokenBucket_bounds_witness:
  "(0::int) \<le> 5 \<and> (5::int) + 9223372036 * \<bar>1\<bar> < 2 ^ 63
   \<and> fst (consumeAll [0, 0, 0, 0, 0, 0, 1000000000] (newTokenBucket 5 1 0))
       = [True, True, True, True, True, False, True]
   \<and> 0 \<le> tokens (snd (consumeAll [0, 0, 0, 0, 0, 0, 1000000000] (newTokenBucket 5 1 0)))
   \<and> tokens (snd (consumeAll [0, 0, 0, 0, 0, 0, 1000000000] (newTokenBucket 5 1 0))) \<le> 5"
proof -
  have a: "(0::int) \<le> 5" by simp
  have b: "(5::int) + 9223372036 * \<bar>1\<bar> < 2 ^ 63" by simp
  have c: "fst (consumeAll [0, 0, 0, 0, 0, 0, 1000000000] (newTokenBucket 5 1 0))
       = [True, True, True, True, True, False, True]"
    by code_simp
  note d = tokenBucket_bounds [OF a b, of "[0, 0, 0, 0, 0, 0, 1000000000]" 0]
  show ?thesis
    by (intro conjI) (rule a b c d [THEN conjunct1] d [THEN conjunct2])+
qed

theorem tokenBucket_bounds_counterexample:
  "tokens (newTokenBucket (-1) 1 0) < 0
   \<and> tokens (snd (consume 1000000000 (newTokenBucket 9223372036854775807 1 0))) < 0"
  by code_simp

subsection \<open>Sliding window\<close>






section \<open>Properties of the JWT managers\<close>

subsection \<open>Validation\<close>

lemma Validate_Nil_iff:
  "Validate now claims = [] \<longleftrightarrow>
     (\<forall>e. RegisteredClaims.ExpiresAt claims = Some e \<longrightarrow> now < e)
     \<and> (\<forall>n. NotBefore claims = Some n \<longrightarrow> n \<le> now)"
  by (auto simp: Validate_def verifyExpiresAt_def verifyNotBefore_def split: option.splits)

lemma ParseWithClaims_Inr_iff:
  "ParseWithClaims (keyFunc cfg) now (Compact tok) = Inr parsed \<longleftrightarrow>
     parsed = \<lparr>Method = Method tok, Claims = Claims tok, Signature = Signature tok, Valid = True\<rparr>
     \<and> isHMAC (Method tok)
     \<and> Signature tok = HMACSig (Method tok) (Secret cfg) (Claims tok)
     \<and> Validate now (Claims tok) = []"
  by (auto simp: ParseWithClaims_def keyFunc_def Verify_def)

lemma ValidateToken_Inr_iff:
  "ValidateToken m now (Compact tok) = Inr claims \<longleftrightarrow>
     claims = Claims tok
     \<and> isHMAC (Method tok)
     \<and> Signature tok = HMACSig (Method tok) (Secret (config m)) (Claims tok)
     \<and> (\<forall>e. RegisteredClaims.ExpiresAt (Claims tok) = Some e \<longrightarrow> now < e)
     \<and> (\<forall>n. NotBefore (Claims tok) = Some n \<longrightarrow> n \<le> now)
     \<and> RegisteredClaims.Issuer (Claims tok) = JWTConfig.Issuer (config m)"
proof (cases "ParseWithClaims (keyFunc (config m)) now (Compact tok)")
  case (Inl e)
  then have "\<not> (\<exists>p. ParseWithClaims (keyFunc (config m)) now (Compact tok) = Inr p)" by simp
  with Inl show ?thesis
    unfolding ParseWithClaims_Inr_iff Validate_Nil_iff by (auto simp: ValidateToken_def)
next
  case (Inr p)
  then show ?thesis
    using Inr [unfolded ParseWithClaims_Inr_iff Validate_Nil_iff]
    by (auto simp: ValidateToken_def)
qed

lemma JWTManager_ValidateToken_Inr_iff:
  "JWTManager_ValidateToken cfg now (Compact tok) = Inr claims \<longleftrightarrow>
     claims = Claims tok
     \<and> isHMAC (Method tok)
     \<and> Signature tok = HMACSig (Method tok) (Secret cfg) (Claims tok)
     \<and> (\<forall>e. RegisteredClaims.ExpiresAt (Claims tok) = Some e \<longrightarrow> now < e)
     \<and> (\<forall>n. NotBefore (Claims tok) = Some n \<longrightarrow> n \<le> now)"
proof (cases "ParseWithClaims (keyFunc cfg) now (Compact tok)")
  case (Inl e)
  then have "\<not> (\<exists>p. ParseWithClaims (keyFunc cfg) now (Compact tok) = Inr p)" by simp
  with Inl show ?thesis
    unfolding ParseWithClaims_Inr_iff Validate_Nil_iff by (auto simp: JWTManager_ValidateToken_def)
next
  case (Inr p)
  then show ?thesis
    using Inr [unfolded ParseWithClaims_Inr_iff Validate_Nil_iff]
    by (auto simp: JWTManager_ValidateToken_def)
qed

lemma hoursDuration_1: "hoursDuration 1 = 3600000000000"
  by (simp add: hoursDuration_def wrap64_def Hour_def Second_def)

lemma testConfig_expiry:
  "NewNumericDate (0 + hoursDuration (ExpireHours testConfig)) = Some 3600000000000"
  by (simp add: testConfig_def hoursDuration_1 NewNumericDate_def Second_def)




subsection \<open>Issuing and validating\<close>

lemma NewNumericDate_le: "NewNumericDate t = Some d \<Longrightarrow> d \<le> t"
  by (auto simp: NewNumericDate_def Second_def)

lemma GenerateToken_New:
  "\<exists>tok. GenerateToken (New cfg) now userID username email role = Inr (Compact tok)
     \<and> Method tok = HS256
     \<and> Signature tok = HMACSig HS256 (Secret cfg) (Claims tok)
     \<and> RegisteredClaims.Issuer (Claims tok) = JWTConfig.Issuer cfg
     \<and> Subject (Claims tok) = formatInt userID
     \<and> RegisteredClaims.ExpiresAt (Claims tok)
         = NewNumericDate (now + hoursDuration (ExpireHours cfg))
     \<and> NotBefore (Claims tok) = NewNumericDate now
     \<and> Claims.UserID (Claims tok) = userID
     \<and> Claims.Username (Claims tok) = username
     \<and> Claims.Email (Claims tok) = email
     \<and> Claims.Role (Claims tok) = role"
  by (simp add: GenerateToken_def New_def SignedString_def Let_def)

lemma GenerateToken_validates:
  assumes "now0 \<le> now1"
    and "NewNumericDate (now0 + hoursDuration (ExpireHours cfg)) = Some expiry"
    and "now1 < expiry"
  shows "\<exists>ts claims. GenerateToken (New cfg) now0 userID username email role = Inr ts
           \<and> ValidateToken (New cfg) now1 ts = Inr claims
           \<and> Claims.UserID claims = userID \<and> Claims.Username claims = username
           \<and> Claims.Email claims = email \<and> Claims.Role claims = role
           \<and> Subject claims = formatInt userID"
proof -
  from GenerateToken_New [of cfg now0 userID username email role]
  obtain tok where tok: "GenerateToken (New cfg) now0 userID username email role = Inr (Compact tok)"
    "Method tok = HS256" "Signature tok = HMACSig HS256 (Secret cfg) (Claims tok)"
    "RegisteredClaims.Issuer (Claims tok) = JWTConfig.Issuer cfg"
    "Subject (Claims tok) = formatInt userID"
    "RegisteredClaims.ExpiresAt (Claims tok) = NewNumericDate (now0 + hoursDuration (ExpireHours cfg))"
    "NotBefore (Claims tok) = NewNumericDate now0"
    "Claims.UserID (Claims tok) = userID" "Claims.Username (Claims tok) = username"
    "Claims.Email (Claims tok) = email" "Claims.Role (Claims tok) = role"
    by blast
  have nbf: "n \<le> now1" if "NotBefore (Claims tok) = Some n" for n
    using that tok(7) NewNumericDate_le [of now0 n] assms(1) by simp
  have "ValidateToken (New cfg) now1 (Compact tok) = Inr (Claims tok)"
    unfolding ValidateToken_Inr_iff using tok assms nbf by (simp add: New_def)
  with tok show ?thesis by blast
qed

text \<open>
  Claim C6. For every user, a token issued by \<open>GenerateToken\<close> at instant \<open>now0\<close> and
  validated by the same manager (same secret and issuer) at a later instant \<open>now1\<close> that
  lies before the token's expiry is accepted, and the claims returned carry the user's
  id: \<open>ValidateToken(GenerateToken(user)).UserID = user.ID\<close>.
\<close>

theorem GenerateToken_ValidateToken_roundtrip:
  assumes "now0 \<le> now1"
    and "NewNumericDate (now0 + hoursDuration (ExpireHours cfg)) = Some expiry"
    and "now1 < expiry"
  shows "\<exists>ts claims. GenerateToken (New cfg) now0 userID username email role = Inr ts
           \<and> ValidateToken (New cfg) now1 ts = Inr claims
           \<and> Claims.UserID claims = userID"
  using GenerateToken_validates [OF assms, of userID username email role] by blast

theorem GenerateToken_ValidateToken_roundtrip_witness:
  "(0::int) \<le> 1000000000
   \<and> NewNumericDate (0 + hoursDuration (ExpireHours testConfig)) = Some 3600000000000
   \<and> (1000000000::int) < 3600000000000
   \<and> (\<exists>ts claims. GenerateToken (New testConfig) 0 123 ''testuser'' ''test@example.com'' ''admin'' = Inr ts
           \<and> ValidateToken (New testConfig) 1000000000 ts = Inr claims
           \<and> Claims.UserID claims = 123)"
proof -
  have a: "(0::int) \<le> 1000000000" by simp
  have c: "(1000000000::int) < 3600000000000" by simp
  note r = GenerateToken_ValidateToken_roundtrip [OF a testConfig_expiry c,
      of 123 "''testuser''" "''test@example.com''" "''admin''"]
  show ?thesis by (intro conjI) (rule a testConfig_expiry c r)+
qed

text \<open>The same round trip holds for \<open>JWTManager\<close>.\<close>

lemma JWTManager_GenerateToken_validates:
  assumes "now0 \<le> now1"
    and "NewNumericDate (now0 + hoursDuration (ExpireHours cfg)) = Some expiry"
    and "now1 < expiry"
  shows "\<exists>ts claims. JWTManager_GenerateToken cfg now0 user = Inr ts
           \<and> JWTManager_ValidateToken cfg now1 ts = Inr claims
           \<and> JWTClaims.UserID claims = User.ID user"
proof -
  have nbf: "n \<le> now1" if "NewNumericDate now0 = Some n" for n
    using that NewNumericDate_le [of now0 n] assms(1) by simp
  show ?thesis
    using assms nbf
    by (simp add: JWTManager_GenerateToken_def SignedString_def Let_def
        JWTManager_ValidateToken_Inr_iff)
qed

subsection \<open>Refreshing\<close>






text \<open>
  What \<open>RefreshToken\<close> does with a token that \<open>ValidateToken\<close> accepts, by the shape of
  its subject; a refresh token issued by \<open>GenerateRefreshToken\<close> yields a new pair for the
  user id and name it carries (it carries no email and no role). For comparison,
  \<open>JWTManager.RefreshToken\<close> has no refresh marker and accepts an access token. Tokens are
  signed deterministically over timestamps truncated to seconds: a pair refreshed within
  the second in which it was issued carries the same access token again, for \<open>Manager\<close> when
  the original had neither email nor role, for \<open>JWTManager\<close> always.
\<close>

lemma RefreshToken_cases:
  assumes "ValidateToken m now ts = Inr claims"
  shows "RefreshToken m now now1 now2 now3 ts =
     (if Subject claims = [] then Return (Inl NotARefreshToken)
      else if length (Subject claims) < 8 then Panic
      else if take 8 (Subject claims) \<noteq> ''refresh:'' then Return (Inl NotARefreshToken)
      else Return (GenerateTokenPair m now1 now2 now3 (Claims.UserID claims)
             (Claims.Username claims) (Claims.Email claims) (Claims.Role claims)))"
  using assms by (simp add: RefreshToken_def sliceTo_def)

lemma GenerateRefreshToken_refreshes:
  assumes "now0 \<le> now"
    and "NewNumericDate (now0 + hoursDuration (RefreshHours cfg)) = Some expiry"
    and "now < expiry"
  shows "\<exists>ts. GenerateRefreshToken (New cfg) now0 userID username = Inr ts
           \<and> RefreshToken (New cfg) now now1 now2 now3 ts
               = Return (GenerateTokenPair (New cfg) now1 now2 now3 userID username [] [])"
proof -
  have nbf: "n \<le> now" if "NewNumericDate now0 = Some n" for n
    using that NewNumericDate_le [of now0 n] assms(1) by simp
  let ?claims = "\<lparr>RegisteredClaims.Issuer = JWTConfig.Issuer cfg,
                    Subject = ''refresh:'' @ formatInt userID,
                    Audience = [JWTConfig.Issuer cfg],
                    RegisteredClaims.ExpiresAt = NewNumericDate (now0 + hoursDuration (RefreshHours cfg)),
                    NotBefore = NewNumericDate now0,
                    IssuedAt = NewNumericDate now0,
                    Claims.UserID = userID, Claims.Username = username,
                    Claims.Email = [], Claims.Role = []\<rparr>"
  let ?tok = "\<lparr>Method = HS256, Claims = ?claims,
               Signature = HMACSig HS256 (Secret cfg) ?claims\<rparr>"
  have g: "GenerateRefreshToken (New cfg) now0 userID username = Inr (Compact ?tok)"
    by (simp add: GenerateRefreshToken_def New_def SignedString_def Let_def)
  have v: "ValidateToken (New cfg) now (Compact ?tok) = Inr ?claims"
    unfolding ValidateToken_Inr_iff using assms nbf by (simp add: New_def)
  have "RefreshToken (New cfg) now now1 now2 now3 (Compact ?tok)
               = Return (GenerateTokenPair (New cfg) now1 now2 now3 userID username [] [])"
    using RefreshToken_cases [OF v, of now1 now2 now3] by simp
  with g show ?thesis by simp
qed

lemma JWTManager_RefreshToken_accepts_access_token:
  "\<not> isl (JWTManager_GenerateToken testConfig 0 testUser)
   \<and> JWTManager_RefreshToken testConfig 1000000000 1000000000 1000000000 1000000000
        (projr (JWTManager_GenerateToken testConfig 0 testUser))
      = Return (JWTManager_GenerateTokenPair testConfig 1000000000 1000000000
          (testUser\<lparr>User.IsActive := False\<rparr>))"
  by (simp add: JWTManager_GenerateToken_def JWTManager_RefreshToken_def
      JWTManager_ValidateToken_def ParseWithClaims_def keyFunc_def Verify_def SignedString_def
      Validate_def verifyExpiresAt_def verifyNotBefore_def NewNumericDate_def hoursDuration_1
      testConfig_def testUser_def Second_def Let_def)

lemma hoursDuration_24: "hoursDuration 24 = 86400000000000"
  by (simp add: hoursDuration_def wrap64_def Hour_def Second_def)

lemma RefreshToken_same_second:
  "\<not> isl (GenerateTokenPair (New testConfig) 100 200 300 123 ''testuser'' [] [])
   \<and> \<not> isl (returned (RefreshToken (New testConfig) 400 500 600 700
        (TokenPair.RefreshToken
           (projr (GenerateTokenPair (New testConfig) 100 200 300 123 ''testuser'' [] [])))))
   \<and> TokenPair.AccessToken (projr (returned (RefreshToken (New testConfig) 400 500 600 700
        (TokenPair.RefreshToken
           (projr (GenerateTokenPair (New testConfig) 100 200 300 123 ''testuser'' [] []))))))
      = TokenPair.AccessToken
           (projr (GenerateTokenPair (New testConfig) 100 200 300 123 ''testuser'' [] []))"
  by (simp add: GenerateTokenPair_def GenerateToken_def GenerateRefreshToken_def New_def
      SignedString_def Let_def RefreshToken_def sliceTo_def
      ValidateToken_def ParseWithClaims_def keyFunc_def Verify_def formatInt_def
      Validate_def verifyExpiresAt_def verifyNotBefore_def NewNumericDate_def hoursDuration_1
      hoursDuration_24 testConfig_def Second_def)

lemma JWTManager_RefreshToken_same_second:
  "\<not> isl (JWTManager_GenerateTokenPair testConfig 100 200 testUser)
   \<and> \<not> isl (returned (JWTManager_RefreshToken testConfig 400 500 600 700
        (JWTTokenPair.RefreshToken (projr (JWTManager_GenerateTokenPair testConfig 100 200 testUser)))))
   \<and> JWTTokenPair.AccessToken (projr (returned (JWTManager_RefreshToken testConfig 400 500 600 700
        (JWTTokenPair.RefreshToken (projr (JWTManager_GenerateTokenPair testConfig 100 200 testUser))))))
      = JWTTokenPair.AccessToken (projr (JWTManager_GenerateTokenPair testConfig 100 200 testUser))"
  by (simp add: JWTManager_GenerateTokenPair_def JWTManager_GenerateToken_def
      JWTManager_GenerateRefreshToken_def JWTManager_RefreshToken_def
      JWTManager_ValidateToken_def ParseWithClaims_def keyFunc_def Verify_def SignedString_def
      Validate_def verifyExpiresAt_def verifyNotBefore_def NewNumericDate_def hoursDuration_1
      hoursDuration_24 testConfig_def testUser_def Second_def Let_def)

text \<open>
  Claim C1 states that \<open>RefreshToken\<close>, called with a valid access token, fails with the
  not-a-refresh-token error. The instance below is the input of the package's own test
  \<open>TestRefreshTokenWithAccessToken\<close>: the access token of user 123 under the test
  configuration, refreshed one second after it was issued. The subject is \<open>123\<close>, and the
  call panics instead of returning the error.
\<close>

theorem RefreshToken_access_token_panics:
  "\<not> isl (GenerateToken (New testConfig) 0 123 ''testuser'' ''test@example.com'' ''user'')
   \<and> RefreshToken (New testConfig) 1000000000 1000000000 1000000000 1000000000
        (projr (GenerateToken (New testConfig) 0 123 ''testuser'' ''test@example.com'' ''user''))
      = Panic"
  by (simp add: GenerateToken_def New_def SignedString_def Let_def RefreshToken_def sliceTo_def
      ValidateToken_def ParseWithClaims_def keyFunc_def Verify_def formatInt_def
      Validate_def verifyExpiresAt_def verifyNotBefore_def NewNumericDate_def hoursDuration_1
      testConfig_def Second_def)

end
